theory Spec2Isabelle
  imports Main "HOL-Library.Word"
begin

unbundle bit_operations_syntax

section \<open>Errors\<close>

text \<open>
  Every failure of the governance code is a JavaScript \<^verbatim>\<open>throw new Error(msg)\<close>; the
  kinds are told apart by the message only. Each throw site of the source is one
  constructor, carrying the values interpolated into its message:
  \<^item> \<open>GovernanceViolation\<close>: \<^verbatim>\<open>executePreHook\<close>, "GOVERNANCE VIOLATION: You attempted to
    mutate the codebase without an active Intent ...", flagged \<^verbatim>\<open>isGovernanceViolation\<close>
    (the missing-intent error of the gate);
  \<^item> \<open>MissingIntent\<close>: \<^verbatim>\<open>PreHook.validate\<close>, "You must cite a valid active Intent ID";
  \<^item> \<open>UnknownCommand c\<close>: \<^verbatim>\<open>PreHook.classifyCommand\<close>, "Unknown command: c";
  \<^item> \<open>UndefinedScope i\<close>: \<^verbatim>\<open>PreHook.enforceScope\<close>, "Intent i does not have a defined scope.";
  \<^item> \<open>ScopeViolation i p\<close>: \<^verbatim>\<open>PreHook.enforceScope\<close>, "Scope Violation: Intent i is not
    authorized to edit p. Request scope expansion.";
  \<^item> \<open>StaleFile p\<close>: \<^verbatim>\<open>PreHook.enforceConcurrencyControl\<close>, "Stale File Error: The file p
    has been modified by another agent or user ...";
  \<^item> \<open>ReadFailure p\<close>: \<^verbatim>\<open>fs.readFileSync\<close> on a path that cannot be read;
  \<^item> \<open>LedgerWriteFailure p\<close>: \<^verbatim>\<open>fs.appendFileSync\<close> on a path that cannot be appended to;
  \<^item> \<open>ActionFailure\<close>: a wrapped tool action that fails by itself.
\<close>

datatype error =
    GovernanceViolation
  | MissingIntent
  | UnknownCommand string
  | UndefinedScope string
  | ScopeViolation string string
  | StaleFile string
  | ReadFailure string
  | LedgerWriteFailure string
  | ActionFailure string

section \<open>Gatekeeper state and the pre-hook gate\<close>

text \<open>
  \<^verbatim>\<open>let activeIntentId: string | null = null\<close> is one module-level variable; \<open>None\<close> is
  \<^verbatim>\<open>null\<close>. JavaScript's \<^verbatim>\<open>!activeIntentId\<close> holds for \<^verbatim>\<open>null\<close> and for the empty string.
\<close>

type_synonym gatekeeper = "string option"

definition falsy :: "string option \<Rightarrow> bool" where
  "falsy v = (case v of None \<Rightarrow> True | Some s \<Rightarrow> s = [])"

definition getActiveIntentId :: "gatekeeper \<Rightarrow> string option" where
  "getActiveIntentId activeIntentId = activeIntentId"

text \<open>\<^verbatim>\<open>executePreHook(toolName, params)\<close>: \<open>Inl\<close> is the thrown error, \<open>Inr ()\<close> a normal return.
  The parameter \<^verbatim>\<open>params\<close> is never read.\<close>

definition executePreHook :: "string \<Rightarrow> 'p \<Rightarrow> gatekeeper \<Rightarrow> error + unit" where
  "executePreHook toolName params activeIntentId =
     (if toolName = ''write_to_file'' \<or> toolName = ''execute_command''
      then (if falsy activeIntentId then Inl GovernanceViolation else Inr ())
      else Inr ())"

text \<open>\<^verbatim>\<open>select_active_intent(intent_id)\<close>: the new state and the returned string.\<close>

definition select_active_intent :: "string \<Rightarrow> gatekeeper \<Rightarrow> string \<times> gatekeeper" where
  "select_active_intent intent_id activeIntentId =
     (''<intent_context id=\"'' @ intent_id @ ''\" />'', Some intent_id)"

section \<open>Command classification\<close>

datatype classification = Safe | Destructive

definition safeCommands :: "string list" where
  "safeCommands = [''read_file'', ''list_files'']"

definition destructiveCommands :: "string list" where
  "destructiveCommands = [''write_file'', ''delete_file'', ''execute_command'']"

definition classifyCommand :: "string \<Rightarrow> error + classification" where
  "classifyCommand command =
     (if command \<in> set safeCommands then Inr Safe
      else if command \<in> set destructiveCommands then Inr Destructive
      else Inl (UnknownCommand command))"

section \<open>Command authorization\<close>

text \<open>
  \<^verbatim>\<open>vscode.window.showWarningMessage(message, {modal: true}, "Approve", "Reject")\<close>
  resolves to the item the user picked, or to \<^verbatim>\<open>undefined\<close> when the dialog is dismissed.
  The approval channel is a parameter: it maps the message shown to the answer, \<open>None\<close>
  for \<^verbatim>\<open>undefined\<close>.
\<close>

type_synonym approval_channel = "string \<Rightarrow> string option"

definition warningMessage :: "string \<Rightarrow> string" where
  "warningMessage command =
     ''The command \"'' @ command @ ''\" is classified as Destructive. Do you want to proceed?''"

text \<open>
  \<^verbatim>\<open>PreHook.authorizeCommand(command)\<close>: the first component is the thrown error or the
  boolean the promise resolves to, the second the warning dialogs that were opened, in
  order (the effect on the user interface).
\<close>

definition authorizeCommand ::
  "approval_channel \<Rightarrow> string \<Rightarrow> (error + bool) \<times> string list" where
  "authorizeCommand showWarningMessage command =
     (case classifyCommand command of
        Inl e \<Rightarrow> (Inl e, [])
      | Inr Destructive \<Rightarrow>
          (Inr (showWarningMessage (warningMessage command) = Some ''Approve''),
           [warningMessage command])
      | Inr Safe \<Rightarrow> (Inr True, []))"

definition handleRecovery :: "string \<Rightarrow> string \<Rightarrow> bool \<times> string \<times> string" where
  "handleRecovery command reason =
     (True,
      ''Command \"'' @ command @ ''\" was rejected. Reason: '' @ reason,
      ''Please modify the command or request additional permissions.'')"

section \<open>SHA-256 and the content hash\<close>

text \<open>
  \<^verbatim>\<open>crypto.createHash("sha256").update(content).digest("hex")\<close>: SHA-256 (FIPS 180-4) of
  the UTF-8 encoding of the string, as 64 lowercase hexadecimal digits. A \<open>char\<close> is one
  code unit of the string, in the range of ASCII and Latin-1.
\<close>

type_synonym u32 = "32 word"
type_synonym byte = "8 word"

text \<open>Rotate right by \<open>n\<close> (for \<open>0 < n < 32\<close>): the low \<open>n\<close> bits move to the top.\<close>

definition rotr :: "nat \<Rightarrow> u32 \<Rightarrow> u32" where
  "rotr n x = drop_bit n x OR push_bit (32 - n) (take_bit n x)"

definition Ch :: "u32 \<Rightarrow> u32 \<Rightarrow> u32 \<Rightarrow> u32" where
  "Ch x y z = (x AND y) XOR (NOT x AND z)"

definition Maj :: "u32 \<Rightarrow> u32 \<Rightarrow> u32 \<Rightarrow> u32" where
  "Maj x y z = (x AND y) XOR (x AND z) XOR (y AND z)"

definition bsig0 :: "u32 \<Rightarrow> u32" where
  "bsig0 x = rotr 2 x XOR rotr 13 x XOR rotr 22 x"

definition bsig1 :: "u32 \<Rightarrow> u32" where
  "bsig1 x = rotr 6 x XOR rotr 11 x XOR rotr 25 x"

definition ssig0 :: "u32 \<Rightarrow> u32" where
  "ssig0 x = rotr 7 x XOR rotr 18 x XOR drop_bit 3 x"

definition ssig1 :: "u32 \<Rightarrow> u32" where
  "ssig1 x = rotr 17 x XOR rotr 19 x XOR drop_bit 10 x"

text \<open>The round constants and the initial hash value of FIPS 180-4 (sections 4.2.2 and
  5.3.3), in decimal: the first 32 bits of the fractional parts of the cube roots of the
  first 64 primes, and of the square roots of the first 8 primes.\<close>

definition sha_K :: "u32 list" where
  "sha_K =
    [1116352408, 1899447441, 3049323471, 3921009573, 961987163, 1508970993,
     2453635748, 2870763221, 3624381080, 310598401, 607225278, 1426881987,
     1925078388, 2162078206, 2614888103, 3248222580, 3835390401, 4022224774,
     264347078, 604807628, 770255983, 1249150122, 1555081692, 1996064986,
     2554220882, 2821834349, 2952996808, 3210313671, 3336571891, 3584528711,
     113926993, 338241895, 666307205, 773529912, 1294757372, 1396182291,
     1695183700, 1986661051, 2177026350, 2456956037, 2730485921, 2820302411,
     3259730800, 3345764771, 3516065817, 3600352804, 4094571909, 275423344,
     430227734, 506948616, 659060556, 883997877, 958139571, 1322822218,
     1537002063, 1747873779, 1955562222, 2024104815, 2227730452, 2361852424,
     2428436474, 2756734187, 3204031479, 3329325298]"

definition sha_H0 :: "u32 list" where
  "sha_H0 =
    [1779033703, 3144134277, 1013904242, 2773480762,
     1359893119, 2600822924, 528734635, 1541459225]"

text \<open>Padding: the byte \<open>0x80\<close>, zero bytes up to 56 modulo 64, and the bit length as
  a 64-bit big-endian number.\<close>

definition be64 :: "nat \<Rightarrow> byte list" where
  "be64 n = map (\<lambda>i. ucast (drop_bit (8 * (7 - i)) (of_nat n :: 64 word))) [0..<8]"

definition sha_pad :: "byte list \<Rightarrow> byte list" where
  "sha_pad m =
     m @ [0x80] @ replicate ((119 - length m mod 64) mod 64) 0 @ be64 (8 * length m)"

fun be_words :: "byte list \<Rightarrow> u32 list" where
  "be_words (a # b # c # d # bs) =
     (push_bit 24 (ucast a) OR push_bit 16 (ucast b) OR push_bit 8 (ucast c) OR ucast d)
       # be_words bs"
| "be_words _ = []"

fun blocks16 :: "u32 list \<Rightarrow> u32 list list" where
  "blocks16 [] = []"
| "blocks16 (w # ws) = take 16 (w # ws) # blocks16 (drop 16 (w # ws))"

text \<open>The message schedule: word \<open>t\<close> for \<open>16 \<le> t < 64\<close> is appended to the first \<open>t\<close> words.\<close>

definition extend1 :: "nat \<Rightarrow> u32 list \<Rightarrow> u32 list" where
  "extend1 t w =
     w @ [ssig1 (w ! (t - 2)) + w ! (t - 7) + ssig0 (w ! (t - 15)) + w ! (t - 16)]"

definition schedule :: "u32 list \<Rightarrow> u32 list" where
  "schedule blk = fold extend1 [16..<64] blk"

text \<open>One round on the working variables \<open>a, ..., h\<close>, with round constant \<open>k\<close> and
  schedule word \<open>w\<close>.\<close>

fun round1 :: "u32 \<times> u32 \<Rightarrow> u32 list \<Rightarrow> u32 list" where
  "round1 (k, w) [a, b, c, d, e, f, g, h] =
     (let t1 = h + bsig1 e + Ch e f g + k + w;
          t2 = bsig0 a + Maj a b c
      in [t1 + t2, a, b, c, d + t1, e, f, g])"
| "round1 _ s = s"

definition compress :: "u32 list \<Rightarrow> u32 list \<Rightarrow> u32 list" where
  "compress blk hs = map2 (+) hs (fold round1 (zip sha_K (schedule blk)) hs)"

definition sha256 :: "byte list \<Rightarrow> u32 list" where
  "sha256 m = fold compress (blocks16 (be_words (sha_pad m))) sha_H0"

definition hex_digit :: "nat \<Rightarrow> char" where
  "hex_digit n = ''0123456789abcdef'' ! n"

definition hex32 :: "u32 \<Rightarrow> string" where
  "hex32 w = map (\<lambda>i. hex_digit (unat (drop_bit (4 * (7 - i)) w AND 15))) [0..<8]"

text \<open>
  The UTF-8 encoding of a string of code units below \<open>0x100\<close>: one byte for a code unit
  below \<open>0x80\<close>, and two bytes, \<open>110000xx 10xxxxxx\<close>, for the others.
\<close>

definition utf8_char :: "char \<Rightarrow> byte list" where
  "utf8_char c =
     (let b = (of_char c :: byte)
      in if b < 0x80 then [b] else [0xC0 OR drop_bit 6 b, 0x80 OR (b AND 0x3F)])"

definition utf8 :: "string \<Rightarrow> byte list" where
  "utf8 s = concat (map utf8_char s)"

text \<open>\<^verbatim>\<open>PreHook.generateContentHash(content)\<close>: the content is hashed as it is.\<close>

definition generateContentHash :: "string \<Rightarrow> string" where
  "generateContentHash content = concat (map hex32 (sha256 (utf8 content)))"

section \<open>The trace ledger\<close>

text \<open>
  The object literal that \<^verbatim>\<open>PreHook.postWriteFileHook\<close> serialises, field by field. The
  source's field \<^verbatim>\<open>id\<close> is \<open>entry_id\<close>; \<^verbatim>\<open>type\<close> and \<^verbatim>\<open>value\<close> of a related item are
  \<open>rel_type\<close> and \<open>rel_value\<close>.
\<close>

record line_range =
  start_line :: nat
  end_line :: nat
  content_hash :: string

record related_item =
  rel_type :: string
  rel_value :: string

record contributor =
  entity_type :: string
  model_identifier :: string

record conversation =
  url :: string
  contributor :: contributor
  ranges :: "line_range list"
  related :: "related_item list"

record file_record =
  relative_path :: string
  conversations :: "conversation list"

record vcs_info =
  revision_id :: string

record trace_entry =
  entry_id :: string
  timestamp :: string
  vcs :: vcs_info
  files :: "file_record list"

datatype mutation_class = AST_REFACTOR | INTENT_EVOLUTION

text \<open>The fields \<^verbatim>\<open>filePath\<close>, \<^verbatim>\<open>content\<close>, \<^verbatim>\<open>intent_id\<close> and \<^verbatim>\<open>mutation_class\<close> of the
  interface \<^verbatim>\<open>WriteFileSchema\<close>, prefixed.\<close>

record WriteFileSchema =
  wf_filePath :: string
  wf_content :: string
  wf_intent_id :: string
  wf_mutation_class :: mutation_class

text \<open>
  The ledger file \<^verbatim>\<open>.orchestration/agent_trace.jsonl\<close> is the list of its lines, each
  line one serialised entry (\<^verbatim>\<open>JSON.stringify\<close> escapes line breaks, so an entry never
  spans two lines). \<^verbatim>\<open>fs.appendFileSync\<close> adds one line at the end and creates the file
  when it is missing; it throws when the directory \<^verbatim>\<open>.orchestration\<close> is missing or the
  file cannot be opened for appending.
\<close>

type_synonym ledger = "trace_entry list"

definition traceFilePath :: string where
  "traceFilePath = ''.orchestration/agent_trace.jsonl''"

definition traceEntry :: "string \<Rightarrow> string \<Rightarrow> WriteFileSchema \<Rightarrow> trace_entry" where
  "traceEntry uuid now writeFileData =
     \<lparr>entry_id = uuid,
      timestamp = now,
      vcs = \<lparr>revision_id = ''git_sha_placeholder''\<rparr>,
      files =
        [\<lparr>relative_path = wf_filePath writeFileData,
          conversations =
            [\<lparr>url = ''session_log_placeholder'',
              contributor = \<lparr>entity_type = ''AI'', model_identifier = ''claude-3-5-sonnet''\<rparr>,
              ranges =
                [\<lparr>start_line = 0, end_line = 0,
                  content_hash = generateContentHash (wf_content writeFileData)\<rparr>],
              related =
                [\<lparr>rel_type = ''specification'', rel_value = wf_intent_id writeFileData\<rparr>]\<rparr>]\<rparr>]\<rparr>"

text \<open>
  \<^verbatim>\<open>PreHook.postWriteFileHook(writeFileData)\<close>. The two values the hook takes from its
  environment, \<^verbatim>\<open>crypto.randomUUID()\<close> and \<^verbatim>\<open>new Date().toISOString()\<close>, are parameters,
  and so is \<open>appendable\<close>: whether the file system lets \<^verbatim>\<open>fs.appendFileSync\<close> append to
  the ledger file. The hook catches nothing, so the exception of a failed append is the
  hook's.
\<close>

definition postWriteFileHook ::
  "bool \<Rightarrow> string \<Rightarrow> string \<Rightarrow> WriteFileSchema \<Rightarrow> ledger \<Rightarrow> error + ledger" where
  "postWriteFileHook appendable uuid now writeFileData agent_trace =
     (if appendable then Inr (agent_trace @ [traceEntry uuid now writeFileData])
      else Inl (LedgerWriteFailure traceFilePath))"

section \<open>Optimistic concurrency control\<close>

text \<open>The file system maps a path to the content of the file there; \<open>None\<close> where
  \<^verbatim>\<open>fs.readFileSync\<close> throws.\<close>

type_synonym filesystem = "string \<rightharpoonup> string"

definition enforceConcurrencyControl :: "filesystem \<Rightarrow> string \<Rightarrow> string \<Rightarrow> error + unit" where
  "enforceConcurrencyControl fs filePath initialHash =
     (case fs filePath of
        None \<Rightarrow> Inl (ReadFailure filePath)
      | Some currentContent \<Rightarrow>
          (if generateContentHash currentContent \<noteq> initialHash
           then Inl (StaleFile filePath) else Inr ()))"

section \<open>Regular expressions\<close>

text \<open>
  The regular expressions of the source are sequences of single-character classes, each
  matched once, optionally (\<^verbatim>\<open>?\<close>), greedily many times (\<^verbatim>\<open>*\<close>) or lazily many times
  (\<^verbatim>\<open>*?\<close>), a class inside the one capture group being flagged, and the end-of-input
  assertion \<^verbatim>\<open>$\<close>. \<^verbatim>\<open>x+\<close> is \<^verbatim>\<open>x\<close> followed by \<^verbatim>\<open>x*\<close>. Strings are sequences of 8-bit
  characters, which covers the code units of ASCII and Latin-1 text.
\<close>

datatype quantifier = Once | Optional | Many | ManyLazy

datatype rx_item = Rx quantifier "char \<Rightarrow> bool" bool | RxEnd

text \<open>
  Backtracking matching from the start of \<open>s\<close>, alternatives tried in the order of
  ECMAScript (greedy: longer first, lazy: shorter first). The result is the text of the
  capture group and the rest of the input after the match.
\<close>

fun rx_match :: "rx_item list \<Rightarrow> string \<Rightarrow> string \<Rightarrow> (string \<times> string) option" where
  "rx_match [] s cap = Some (cap, s)"
| "rx_match (RxEnd # r) s cap = (if s = [] then rx_match r s cap else None)"
| "rx_match (Rx Once p g # r) [] cap = None"
| "rx_match (Rx Once p g # r) (c # cs) cap =
     (if p c then rx_match r cs (if g then cap @ [c] else cap) else None)"
| "rx_match (Rx Optional p g # r) [] cap = rx_match r [] cap"
| "rx_match (Rx Optional p g # r) (c # cs) cap =
     (if p c
      then (case rx_match r cs (if g then cap @ [c] else cap) of
              Some m \<Rightarrow> Some m
            | None \<Rightarrow> rx_match r (c # cs) cap)
      else rx_match r (c # cs) cap)"
| "rx_match (Rx Many p g # r) [] cap = rx_match r [] cap"
| "rx_match (Rx Many p g # r) (c # cs) cap =
     (if p c
      then (case rx_match (Rx Many p g # r) cs (if g then cap @ [c] else cap) of
              Some m \<Rightarrow> Some m
            | None \<Rightarrow> rx_match r (c # cs) cap)
      else rx_match r (c # cs) cap)"
| "rx_match (Rx ManyLazy p g # r) [] cap = rx_match r [] cap"
| "rx_match (Rx ManyLazy p g # r) (c # cs) cap =
     (case rx_match r (c # cs) cap of
        Some m \<Rightarrow> Some m
      | None \<Rightarrow>
          (if p c then rx_match (Rx ManyLazy p g # r) cs (if g then cap @ [c] else cap)
           else None))"

text \<open>\<^verbatim>\<open>str.match(re)\<close> without the \<^verbatim>\<open>g\<close> flag: the leftmost start position that
  matches; \<open>m[1]\<close> is the capture.\<close>

fun rx_search :: "rx_item list \<Rightarrow> string \<Rightarrow> (string \<times> string) option" where
  "rx_search r [] = rx_match r [] []"
| "rx_search r (c # cs) =
     (case rx_match r (c # cs) [] of Some m \<Rightarrow> Some m | None \<Rightarrow> rx_search r cs)"

definition capture1 :: "rx_item list \<Rightarrow> string \<Rightarrow> string option" where
  "capture1 r s = map_option fst (rx_search r s)"

text \<open>Character classes. \<^verbatim>\<open>\s\<close> on 8-bit characters: tab, line feed, vertical tab, form
  feed, carriage return, space and no-break space. \<^verbatim>\<open>.\<close> excludes the line terminators.\<close>

definition lit :: "char \<Rightarrow> char \<Rightarrow> bool" where
  "lit a c = (c = a)"

definition white :: "char \<Rightarrow> bool" where
  "white c = (c \<in> set [CHR 0x09, CHR 0x0A, CHR 0x0B, CHR 0x0C, CHR 0x0D, CHR 0x20, CHR 0xA0])"

definition any_char :: "char \<Rightarrow> bool" where
  "any_char c = True"

definition dot :: "char \<Rightarrow> bool" where
  "dot c = (c \<noteq> CHR 0x0A \<and> c \<noteq> CHR 0x0D)"

definition not_slash :: "char \<Rightarrow> bool" where
  "not_slash c = (c \<noteq> CHR ''/'')"

section \<open>Intents and scope enforcement\<close>

text \<open>
  An \<^verbatim>\<open>Intent\<close> object. Its type declaration is not among the sources; the fields are
  those the code reads and writes. \<^verbatim>\<open>id\<close> is \<open>ident\<close>; every other field may be
  \<^verbatim>\<open>undefined\<close> (\<open>None\<close>), as in the literal \<^verbatim>\<open>{ id: activeIntentId, owned_scope: ["**"] }\<close>.
\<close>

record Intent =
  ident :: string
  name :: "string option"
  owned_scope :: "string list option"
  constraints :: "string list option"
  acceptance_criteria :: "string list option"

text \<open>\<^verbatim>\<open>pattern.replace(/\*\*/g, ".*")\<close>: every non-overlapping \<^verbatim>\<open>**\<close>, from the left.\<close>

fun replace_double_star :: "string \<Rightarrow> string" where
  "replace_double_star [] = []"
| "replace_double_star [c] = [c]"
| "replace_double_star (c # d # s) =
     (if c = CHR ''*'' \<and> d = CHR ''*'' then ''.*'' @ replace_double_star s
      else c # replace_double_star (d # s))"

text \<open>\<^verbatim>\<open>.replace(/\*/g, "[^/]*")\<close>: every \<^verbatim>\<open>*\<close>, the one just written by the first
  replacement included.\<close>

fun replace_star :: "string \<Rightarrow> string" where
  "replace_star [] = []"
| "replace_star (c # s) =
     (if c = CHR ''*'' then ''[^/]*'' @ replace_star s else c # replace_star s)"

definition scope_regex_source :: "string \<Rightarrow> string" where
  "scope_regex_source pattern = ''^'' @ replace_star (replace_double_star pattern) @ ''$''"

text \<open>
  \<^verbatim>\<open>new RegExp(source)\<close> for the sources that \<open>scope_regex_source\<close> builds from a pattern
  of ordinary characters, \<^verbatim>\<open>.\<close> and \<^verbatim>\<open>*\<close>: after the leading \<^verbatim>\<open>^\<close>, a \<^verbatim>\<open>.\<close> is any
  character but a line terminator, \<^verbatim>\<open>[^/]*\<close> is a greedy run of characters other than
  \<^verbatim>\<open>/\<close>, a final \<^verbatim>\<open>$\<close> is the end of the input, and any other character that is not a
  syntax character of regular expressions is itself. A source with another syntax
  character (from a pattern that contains one of \<^verbatim>\<open>\ ^ $ + ? ( ) [ ] { } |\<close>) is outside
  this model: the result is \<open>None\<close>.
\<close>

definition syntax_characters :: "string" where
  "syntax_characters = CHR 0x5C # ''^$*+?()[]{}|''"

fun rx_parse :: "string \<Rightarrow> rx_item list option" where
  "rx_parse [] = Some []"
| "rx_parse (c # s) =
     (if c = CHR ''['' then
        (if take 4 s = ''^/]*'' then map_option ((#) (Rx Many not_slash False)) (rx_parse (drop 4 s))
         else None)
      else if c = CHR ''.'' then map_option ((#) (Rx Once dot False)) (rx_parse s)
      else if c = CHR ''$'' \<and> s = [] then Some [RxEnd]
      else if c \<in> set syntax_characters then None
      else map_option ((#) (Rx Once (lit c) False)) (rx_parse s))"

definition RegExp :: "string \<Rightarrow> rx_item list option" where
  "RegExp source = (case source of [] \<Rightarrow> None | c # body \<Rightarrow> if c = CHR ''^'' then rx_parse body else None)"

text \<open>\<^verbatim>\<open>regex.test(str)\<close> for an expression anchored at the start: only position 0 can match.\<close>

definition RegExp_test :: "rx_item list \<Rightarrow> string \<Rightarrow> bool" where
  "RegExp_test r str = (rx_match r str [] \<noteq> None)"

text \<open>\<^verbatim>\<open>intent.owned_scope.some(pattern => ...)\<close>: the patterns in order, stopping at the
  first that matches; \<open>None\<close> when a pattern that is reached is outside the model.\<close>

fun some_pattern :: "string list \<Rightarrow> string \<Rightarrow> bool option" where
  "some_pattern [] filePath = Some False"
| "some_pattern (pattern # ps) filePath =
     (case RegExp (scope_regex_source pattern) of
        None \<Rightarrow> None
      | Some regex \<Rightarrow> if RegExp_test regex filePath then Some True else some_pattern ps filePath)"

text \<open>\<^verbatim>\<open>PreHook.enforceScope(filePath, intent)\<close>. An empty array is truthy in JavaScript, so
  only a missing \<^verbatim>\<open>owned_scope\<close> gives the first error.\<close>

definition enforceScope :: "string \<Rightarrow> Intent \<Rightarrow> (error + unit) option" where
  "enforceScope filePath intent =
     (case owned_scope intent of
        None \<Rightarrow> Some (Inl (UndefinedScope (ident intent)))
      | Some patterns \<Rightarrow>
          (case some_pattern patterns filePath of
             None \<Rightarrow> None
           | Some isValid \<Rightarrow>
               Some (if \<not> isValid then Inl (ScopeViolation (ident intent) filePath) else Inr ())))"

text \<open>
  The pattern semantics in the words of the specification, for comparison with the code:
  \<^verbatim>\<open>**\<close> matches zero or more path segments (any characters, separators included),
  \<^verbatim>\<open>*\<close> matches the characters of one path segment (no separator), every other
  character matches itself; a path is covered when some pattern matches it.
\<close>

fun spec_glob :: "string \<Rightarrow> string \<Rightarrow> bool" where
  "spec_glob [] path = (path = [])"
| "spec_glob [a] [] = (a = CHR ''*'')"
| "spec_glob (a # b # p) [] = (a = CHR ''*'' \<and> spec_glob (b # p) [])"
| "spec_glob [a] (c # cs) =
     (if a = CHR ''*'' then c \<noteq> CHR ''/'' \<and> spec_glob [a] cs else c = a \<and> cs = [])"
| "spec_glob (a # b # p) (c # cs) =
     (if a = CHR ''*'' \<and> b = CHR ''*''
        then spec_glob p (c # cs) \<or> spec_glob (a # b # p) cs
      else if a = CHR ''*''
        then spec_glob (b # p) (c # cs) \<or> (c \<noteq> CHR ''/'' \<and> spec_glob (a # b # p) cs)
      else c = a \<and> spec_glob (b # p) cs)"

definition spec_matches :: "string \<Rightarrow> string list \<Rightarrow> bool" where
  "spec_matches path patterns = list_ex (\<lambda>pattern. spec_glob pattern path) patterns"

section \<open>The intent registry\<close>

text \<open>Character classes of the registry's expressions: \<^verbatim>\<open>"\<close>, \<^verbatim>\<open>[^"]\<close>, \<^verbatim>\<open>[^\"\n]\<close>, a
  letter matched under the \<^verbatim>\<open>i\<close> flag, and \<^verbatim>\<open>[a-z_]\<close> under the \<^verbatim>\<open>i\<close> flag.\<close>

definition quote :: "char \<Rightarrow> bool" where
  "quote c = (c = CHR 0x22)"

definition not_quote :: "char \<Rightarrow> bool" where
  "not_quote c = (c \<noteq> CHR 0x22)"

definition not_quote_nl :: "char \<Rightarrow> bool" where
  "not_quote_nl c = (c \<noteq> CHR 0x22 \<and> c \<noteq> CHR 0x0A)"

definition ascii_lower :: "char \<Rightarrow> char" where
  "ascii_lower c =
     (let n = (of_char c :: nat) in if 65 \<le> n \<and> n \<le> 90 then char_of (n + 32) else c)"

definition lit_ci :: "char \<Rightarrow> char \<Rightarrow> bool" where
  "lit_ci a c = (ascii_lower c = ascii_lower a)"

definition key_char :: "char \<Rightarrow> bool" where
  "key_char c =
     (let n = (of_char (ascii_lower c) :: nat) in (97 \<le> n \<and> n \<le> 122) \<or> c = CHR ''_'')"

definition lits :: "string \<Rightarrow> rx_item list" where
  "lits s = map (\<lambda>a. Rx Once (lit a) False) s"

definition lits_ci :: "string \<Rightarrow> rx_item list" where
  "lits_ci s = map (\<lambda>a. Rx Once (lit_ci a) False) s"

text \<open>\<^verbatim>\<open>/\n\s*-\s+id:\s*/\<close>\<close>

definition entry_separator :: "rx_item list" where
  "entry_separator =
     [Rx Once (lit (CHR 0x0A)) False, Rx Many white False, Rx Once (lit CHR ''-'') False,
      Rx Once white False, Rx Many white False] @ lits ''id:'' @ [Rx Many white False]"

text \<open>\<^verbatim>\<open>/^"?([^"]+)"?/\<close>, matched at position 0.\<close>

definition id_regex :: "rx_item list" where
  "id_regex =
     [Rx Optional quote False, Rx Once not_quote True, Rx Many not_quote True,
      Rx Optional quote False]"

text \<open>\<^verbatim>\<open>/\n\s*name:\s*"?([^\"\n]+)"?/i\<close>, for the key \<open>name\<close>.\<close>

definition field_regex :: "string \<Rightarrow> rx_item list" where
  "field_regex key =
     [Rx Once (lit (CHR 0x0A)) False, Rx Many white False] @ lits_ci (key @ '':'') @
     [Rx Many white False, Rx Optional quote False, Rx Once not_quote_nl True,
      Rx Many not_quote_nl True, Rx Optional quote False]"

text \<open>\<^verbatim>\<open>/owned_scope:\s*\n([\s\S]*?)\n\s*[a-z_]+:/i\<close> and
  \<^verbatim>\<open>/owned_scope:\s*\n([\s\S]*)$/i\<close>, for the key \<open>owned_scope\<close>.\<close>

definition block_regex :: "string \<Rightarrow> rx_item list" where
  "block_regex key =
     lits_ci (key @ '':'') @
     [Rx Many white False, Rx Once (lit (CHR 0x0A)) False, Rx ManyLazy any_char True,
      Rx Once (lit (CHR 0x0A)) False, Rx Many white False, Rx Once key_char False,
      Rx Many key_char False, Rx Once (lit CHR '':'') False]"

definition block_regex_last :: "string \<Rightarrow> rx_item list" where
  "block_regex_last key =
     lits_ci (key @ '':'') @
     [Rx Many white False, Rx Once (lit (CHR 0x0A)) False, Rx Many any_char True, RxEnd]"

text \<open>\<^verbatim>\<open>/-\s*"?([^\"\n]+)"?/\<close>\<close>

definition item_regex :: "rx_item list" where
  "item_regex =
     [Rx Once (lit CHR ''-'') False, Rx Many white False, Rx Optional quote False,
      Rx Once not_quote_nl True, Rx Many not_quote_nl True, Rx Optional quote False]"

text \<open>
  \<^verbatim>\<open>str.split(separator)\<close> with a regular expression without capture groups, scanning
  as ECMAScript does: \<open>cur\<close> is the piece since the last separator, \<open>skip\<close> counts the
  characters of a separator still to pass over. An empty match does not split at the
  start of a piece, and never consumes a character.
\<close>

fun js_split :: "rx_item list \<Rightarrow> string \<Rightarrow> nat \<Rightarrow> string \<Rightarrow> string list" where
  "js_split r cur skip [] = [cur]"
| "js_split r cur (Suc k) (c # cs) = js_split r cur k cs"
| "js_split r cur 0 (c # cs) =
     (case rx_match r (c # cs) [] of
        None \<Rightarrow> js_split r (cur @ [c]) 0 cs
      | Some (cap, rest) \<Rightarrow>
          if length rest = length (c # cs)
          then (if cur = [] then js_split r [c] 0 cs else cur # js_split r [c] 0 cs)
          else cur # js_split r [] (length cs - length rest) cs)"

definition split_regex :: "rx_item list \<Rightarrow> string \<Rightarrow> string list" where
  "split_regex r str =
     (if str = [] then (if rx_match r [] [] \<noteq> None then [] else [[]])
      else js_split r [] 0 str)"

text \<open>\<^verbatim>\<open>str.split("\n")\<close>\<close>

fun split_char :: "char \<Rightarrow> string \<Rightarrow> string \<Rightarrow> string list" where
  "split_char sep cur [] = [cur]"
| "split_char sep cur (c # cs) =
     (if c = sep then cur # split_char sep [] cs else split_char sep (cur @ [c]) cs)"

text \<open>\<^verbatim>\<open>a || b\<close> on values that are a string or \<^verbatim>\<open>undefined\<close>.\<close>

definition js_or :: "string option \<Rightarrow> string option \<Rightarrow> string option" where
  "js_or a b = (if falsy a then b else a)"

text \<open>The loop over the lines of a block, pushing the capture of each line that matches.\<close>

definition list_items :: "string \<Rightarrow> string list" where
  "list_items block =
     concat (map (\<lambda>line. case capture1 item_regex line of
                            None \<Rightarrow> []
                          | Some m \<Rightarrow> if m = [] then [] else [m])
                 (split_char (CHR 0x0A) [] block))"

definition section_items :: "string \<Rightarrow> string \<Rightarrow> string list" where
  "section_items key entry =
     (case js_or (capture1 (block_regex key) entry) (capture1 (block_regex_last key) entry) of
        None \<Rightarrow> []
      | Some block \<Rightarrow> if block = [] then [] else list_items block)"

definition intent_of_entry :: "string \<Rightarrow> string \<Rightarrow> Intent" where
  "intent_of_entry i entry =
     \<lparr>ident = i,
      name = capture1 (field_regex ''name'') entry,
      owned_scope = Some (section_items ''owned_scope'' entry),
      constraints = Some (section_items ''constraints'' entry),
      acceptance_criteria = Some (section_items ''acceptance_criteria'' entry)\<rparr>"

text \<open>The loop of \<^verbatim>\<open>extractIntentBlock\<close> over the entries: the first entry whose
  captured id is the requested one.\<close>

fun find_entry :: "string \<Rightarrow> string list \<Rightarrow> Intent option" where
  "find_entry i [] = None"
| "find_entry i (entry # entries) =
     (if map_option fst (rx_match id_regex entry []) \<noteq> Some i then find_entry i entries
      else Some (intent_of_entry i entry))"

definition extractIntentBlock :: "string \<Rightarrow> string \<Rightarrow> Intent option" where
  "extractIntentBlock yaml i = find_entry i (drop 1 (split_regex entry_separator yaml))"

text \<open>\<^verbatim>\<open>String.prototype.trim\<close> on 8-bit characters.\<close>

definition trim :: "string \<Rightarrow> string" where
  "trim s = rev (dropWhile white (rev (dropWhile white s)))"

definition permissive_stub :: "string \<Rightarrow> Intent" where
  "permissive_stub i =
     \<lparr>ident = i, name = None, owned_scope = Some [''**''], constraints = None,
      acceptance_criteria = None\<rparr>"

text \<open>
  \<^verbatim>\<open>PreHook.validate(activeIntentId)\<close>. The argument is \<open>None\<close> when the caller passes
  \<^verbatim>\<open>null\<close> or \<^verbatim>\<open>undefined\<close>; \<open>sidecar\<close> is the content of
  \<^verbatim>\<open>.orchestration/active_intents.yaml\<close>, \<open>None\<close> when reading it throws. The two copies of
  the method in the sources differ in the call that reads the file and in the wording of
  the error only.
\<close>

definition validate :: "string option \<Rightarrow> string option \<Rightarrow> error + Intent" where
  "validate sidecar activeIntentId =
     (case activeIntentId of
        None \<Rightarrow> Inl MissingIntent
      | Some i \<Rightarrow>
          if i = [] \<or> length (trim i) = 0 then Inl MissingIntent
          else (case sidecar of
                  None \<Rightarrow> Inr (permissive_stub i)
                | Some yaml \<Rightarrow>
                    (case extractIntentBlock yaml i of
                       None \<Rightarrow> Inr (permissive_stub i)
                     | Some block \<Rightarrow> Inr block)))"

text \<open>
  \<^verbatim>\<open>selectActiveIntent(intentId)\<close>, the asynchronous function of the gatekeeper module. It
  reads the registry source itself: \<open>sidecar\<close> is \<open>Inr\<close> the content of
  \<^verbatim>\<open>.orchestration/active_intents.yaml\<close>, or \<open>Inl\<close> the message of the error that reading
  it throws. The variable \<^verbatim>\<open>activeIntentId\<close> is assigned only when the registry has the
  id; every failure is caught and reported in the result \<^verbatim>\<open>{ success, message }\<close>.
\<close>

definition selectActiveIntent ::
  "string + string \<Rightarrow> string \<Rightarrow> gatekeeper \<Rightarrow> (bool \<times> string) \<times> gatekeeper" where
  "selectActiveIntent sidecar intentId activeIntentId =
     (case sidecar of
        Inl m \<Rightarrow> ((False, ''Failed to activate intent: '' @ m), activeIntentId)
      | Inr yaml \<Rightarrow>
          (case extractIntentBlock yaml intentId of
             None \<Rightarrow>
               ((False, ''Failed to activate intent: Intent ID '' @ intentId @
                   '' not found in active_intents.yaml''),
                activeIntentId)
           | Some block \<Rightarrow>
               ((True, ''Intent '' @ intentId @ '' activated successfully.''), Some intentId)))"

section \<open>The select-active-intent tool\<close>

text \<open>
  \<^verbatim>\<open>SelectActiveIntentTool.execute\<close> resolves the intent by itself, with a copy of the
  block extractor that returns \<^verbatim>\<open>{ id, name, owned_scope, constraints }\<close> and gives up on
  an empty source. Its result is the text handed to \<^verbatim>\<open>pushToolResult\<close> and the two values
  it stores through the provider's context proxy (the provider is taken to exist).
\<close>

text \<open>\<^verbatim>\<open>array.join(",")\<close>\<close>

fun join :: "string \<Rightarrow> string list \<Rightarrow> string" where
  "join sep [] = []"
| "join sep [x] = x"
| "join sep (x # y # ys) = x @ sep @ join sep (y # ys)"




definition tool_stub :: "string \<Rightarrow> Intent" where
  "tool_stub i =
     \<lparr>ident = i, name = None, owned_scope = Some [''**''], constraints = Some [],
      acceptance_criteria = None\<rparr>"

definition joined_or_none :: "string list option \<Rightarrow> string" where
  "joined_or_none xs =
     (case xs of None \<Rightarrow> ''(none)'' | Some l \<Rightarrow> if l = [] then ''(none)'' else join '','' l)"

definition intent_xml :: "Intent \<Rightarrow> string" where
  "intent_xml intent =
     join '' ''
       [''<intent_context>'', ''<id>'' @ ident intent @ ''</id>'',
        ''<scope>'' @ joined_or_none (owned_scope intent) @ ''</scope>'',
        ''<constraints>'' @ joined_or_none (constraints intent) @ ''</constraints>'',
        ''</intent_context>'']"





section \<open>Calls from several sessions\<close>

text \<open>
  None of \<^verbatim>\<open>select_active_intent\<close>, \<^verbatim>\<open>selectActiveIntent\<close> and \<^verbatim>\<open>executePreHook\<close> takes a
  session or task argument, and all three work on the one module-level variable; the
  first two are the only code that assigns it. A call is tagged here with the session
  that issues it, to state properties about sessions; the code does not see the tag. A
  \<^verbatim>\<open>selectActiveIntent\<close> call carries what reading the registry source gives at that
  moment. JavaScript runs the calls of all sessions of a process one after the other, so
  an execution is a list of calls.
\<close>

datatype 's call =
    Select 's string
  | SelectFromRegistry 's string "string + string"
  | Gate 's string

fun caller :: "'s call \<Rightarrow> 's" where
  "caller (Select s i) = s"
| "caller (SelectFromRegistry s i sidecar) = s"
| "caller (Gate s t) = s"

fun step :: "'s call \<Rightarrow> gatekeeper \<Rightarrow> gatekeeper" where
  "step (Select s i) activeIntentId = snd (select_active_intent i activeIntentId)"
| "step (SelectFromRegistry s i sidecar) activeIntentId =
     snd (selectActiveIntent sidecar i activeIntentId)"
| "step (Gate s t) activeIntentId = activeIntentId"

definition run_calls :: "'s call list \<Rightarrow> gatekeeper \<Rightarrow> gatekeeper" where
  "run_calls calls activeIntentId = fold step calls activeIntentId"

text \<open>What a gate evaluation issued by session \<open>s\<close> for tool \<open>t\<close> returns in a state.\<close>

definition gate_result :: "'s \<Rightarrow> string \<Rightarrow> gatekeeper \<Rightarrow> error + unit" where
  "gate_result s t activeIntentId = executePreHook t () activeIntentId"

text \<open>The calls that remain when those of session \<open>a\<close> are left out.\<close>

definition without_session :: "'s \<Rightarrow> 's call list \<Rightarrow> 's call list" where
  "without_session a calls = filter (\<lambda>c. caller c \<noteq> a) calls"

section \<open>The orchestrator\<close>

text \<open>
  Modelled from the spec: \<^verbatim>\<open>HookEngine.executeWithHooks\<close> (the file HookEngine.ts) is not
  among the sources. The specification gives its control flow: the orchestrator runs the
  gate; on success it invokes the wrapped action; on the action's success it runs the
  logger; any gate or logging failure is reported through a typed result. The terminal
  state is \<open>BLOCKED\<close> when a gate step failed (the wrapped action is never invoked, no
  trace entry), \<open>FAILED\<close> when the wrapped action itself failed (no trace entry, since no
  mutation occurred), \<open>LEDGER_WRITE_FAILED\<close> when the action succeeded and the append to the
  ledger failed (the mutation stands, unrecorded, and the failure is surfaced), and
  \<open>DONE\<close> otherwise. The gate is a parameter; the logger is \<open>postWriteFileHook\<close> of the
  sources. The state holds the gatekeeper variable, the lines of the ledger file, whether
  the ledger file can be appended to, and the workspace. The wrapped action is the code
  of a tool: it may change any part of the state.
\<close>

datatype 'r outcome = DONE 'r | BLOCKED error | FAILED error | LEDGER_WRITE_FAILED error

record 'w governed =
  activeIntent :: gatekeeper
  agent_trace :: ledger
  trace_appendable :: bool
  workspace :: 'w

type_synonym ('w, 'r) action = "'w governed \<Rightarrow> error + 'r \<times> 'w governed"

definition executeWithHooks ::
  "('w governed \<Rightarrow> error + unit) \<Rightarrow> ('w, 'r) action \<Rightarrow> string \<Rightarrow> string \<Rightarrow> WriteFileSchema \<Rightarrow>
     'w governed \<Rightarrow> 'r outcome \<times> 'w governed" where
  "executeWithHooks gate action uuid now meta st =
     (case gate st of
        Inl e \<Rightarrow> (BLOCKED e, st)
      | Inr u \<Rightarrow>
          (case action st of
             Inl e \<Rightarrow> (FAILED e, st)
           | Inr (r, st1) \<Rightarrow>
               (case postWriteFileHook (trace_appendable st1) uuid now meta (agent_trace st1) of
                  Inl e \<Rightarrow> (LEDGER_WRITE_FAILED e, st1)
                | Inr appended \<Rightarrow> (DONE r, st1\<lparr>agent_trace := appended\<rparr>))))"

text \<open>A tool invocation behind the pre-hook gate of the sources.\<close>

definition governed_tool_call ::
  "string \<Rightarrow> 'p \<Rightarrow> ('w, 'r) action \<Rightarrow> string \<Rightarrow> string \<Rightarrow> WriteFileSchema \<Rightarrow>
     'w governed \<Rightarrow> 'r outcome \<times> 'w governed" where
  "governed_tool_call toolName params action uuid now meta st =
     executeWithHooks (\<lambda>s. executePreHook toolName params (activeIntent s)) action uuid now meta st"

text \<open>A sequence of governed actions, each with its gate, its action, the identifier and
  time of its trace entry and its metadata; the outcomes are returned in order.\<close>

type_synonym ('w, 'r) request =
  "('w governed \<Rightarrow> error + unit) \<times> ('w, 'r) action \<times> string \<times> string \<times> WriteFileSchema"

fun run_governed ::
  "('w, 'r) request list \<Rightarrow> 'w governed \<Rightarrow> 'r outcome list \<times> 'w governed" where
  "run_governed [] st = ([], st)"
| "run_governed ((gate, action, uuid, now, meta) # reqs) st =
     (case executeWithHooks gate action uuid now meta st of
        (out, st1) \<Rightarrow> (case run_governed reqs st1 of (outs, st2) \<Rightarrow> (out # outs, st2)))"

fun is_done :: "'r outcome \<Rightarrow> bool" where
  "is_done (DONE r) = True"
| "is_done (BLOCKED e) = False"
| "is_done (FAILED e) = False"
| "is_done (LEDGER_WRITE_FAILED e) = False"

fun entry_of_request :: "('w, 'r) request \<Rightarrow> trace_entry" where
  "entry_of_request (gate, action, uuid, now, meta) = traceEntry uuid now meta"

fun action_of_request :: "('w, 'r) request \<Rightarrow> ('w, 'r) action" where
  "action_of_request (gate, action, uuid, now, meta) = action"

text \<open>The trace entries of the requests that ended in \<open>DONE\<close>, in the order of the requests.\<close>

definition completed_entries :: "('w, 'r) request list \<Rightarrow> 'r outcome list \<Rightarrow> trace_entry list" where
  "completed_entries reqs outs =
     map (\<lambda>(req, out). entry_of_request req) (filter (\<lambda>(req, out). is_done out) (zip reqs outs))"

text \<open>An action that leaves the lines of the ledger file as they are whenever it succeeds:
  the tool itself does not write, truncate or delete the ledger.\<close>

definition preserves_ledger :: "('w, 'r) action \<Rightarrow> bool" where
  "preserves_ledger action =
     (\<forall>st r st1. action st = Inr (r, st1) \<longrightarrow> agent_trace st1 = agent_trace st)"

section \<open>Sample inputs\<close>

text \<open>Concrete values at which the theorems below are evaluated.\<close>

definition sample_write :: WriteFileSchema where
  "sample_write =
     \<lparr>wf_filePath = ''src/a.ts'', wf_content = ''x'', wf_intent_id = ''INT-001'',
      wf_mutation_class = AST_REFACTOR\<rparr>"

definition sample_state :: "nat governed" where
  "sample_state =
     \<lparr>activeIntent = Some ''INT-001'', agent_trace = [], trace_appendable = True,
      workspace = 0\<rparr>"

text \<open>Four actions on a workspace that counts its mutations: one that mutates, one that
  fails, one that mutates and removes the directory of the ledger, and one that empties
  the ledger file (a command run by \<open>execute_command\<close> can do either).\<close>

definition mutate :: "(nat, unit) action" where
  "mutate st = Inr ((), st\<lparr>workspace := Suc (workspace st)\<rparr>)"

definition fail_action :: "(nat, unit) action" where
  "fail_action st = Inl (ActionFailure ''disk full'')"

definition mutate_and_remove_directory :: "(nat, unit) action" where
  "mutate_and_remove_directory st =
     Inr ((), st\<lparr>trace_appendable := False, workspace := Suc (workspace st)\<rparr>)"

definition empty_trace_file :: "(nat, unit) action" where
  "empty_trace_file st = Inr ((), st\<lparr>agent_trace := []\<rparr>)"

definition sample_requests :: "(nat, unit) request list" where
  "sample_requests =
     [(\<lambda>s. Inl (ScopeViolation ''INT-001'' ''docs/readme.txt''), mutate,
         ''uuid-0'', ''t0'', sample_write),
      (\<lambda>s. executePreHook ''write_to_file'' () (activeIntent s), fail_action,
         ''uuid-1'', ''t1'', sample_write),
      (\<lambda>s. executePreHook ''write_to_file'' () (activeIntent s), mutate,
         ''uuid-2'', ''t2'', sample_write),
      (\<lambda>s. executePreHook ''execute_command'' () (activeIntent s), mutate,
         ''uuid-3'', ''t3'', sample_write),
      (\<lambda>s. executePreHook ''execute_command'' () (activeIntent s), mutate_and_remove_directory,
         ''uuid-4'', ''t4'', sample_write)]"

text \<open>The outcomes of the sample requests, run from the sample state.\<close>

definition sample_outcomes :: "unit outcome list" where
  "sample_outcomes =
     [BLOCKED (ScopeViolation ''INT-001'' ''docs/readme.txt''),
      FAILED (ActionFailure ''disk full''), DONE (), DONE (),
      LEDGER_WRITE_FAILED (LedgerWriteFailure traceFilePath)]"


text \<open>Two contents that differ in the representation of the line ending only:
  \<open>a\<close> followed by LF, and \<open>a\<close> followed by CR LF.\<close>

definition content_lf :: string where
  "content_lf = [CHR ''a'', CHR 0x0A]"

definition content_crlf :: string where
  "content_crlf = [CHR ''a'', CHR 0x0D, CHR 0x0A]"

definition core_intent :: Intent where
  "core_intent =
     \<lparr>ident = ''INT-001'', name = None, owned_scope = Some [''src/core/**''],
      constraints = None, acceptance_criteria = None\<rparr>"

text \<open>A registry source with one entry, \<open>INT-001\<close>, whose scope is \<^verbatim>\<open>**\<close>.\<close>

definition sample_registry :: string where
  "sample_registry =
     ''active_intents:'' @ [CHR 0x0A] @
     ''  - id: '' @ [CHR 0x22] @ ''INT-001'' @ [CHR 0x22, CHR 0x0A] @
     ''    name: Core'' @ [CHR 0x0A] @
     ''    owned_scope:'' @ [CHR 0x0A] @
     ''      - '' @ [CHR 0x22] @ ''**'' @ [CHR 0x22, CHR 0x0A]"

section \<open>Properties of the pre-hook gate\<close>

text \<open>
  Claim C10. The gate looks at the active intent only for the tool names
  \<open>write_to_file\<close> and \<open>execute_command\<close>: for every other tool name, whatever the
  parameters and whatever the gatekeeper state (in particular with no intent selected),
  \<open>executePreHook\<close> returns normally.
\<close>

theorem executePreHook_other_tools_pass:
  "toolName \<noteq> ''write_to_file'' \<Longrightarrow> toolName \<noteq> ''execute_command'' \<Longrightarrow>
     executePreHook toolName params activeIntentId = Inr ()"
  by (simp add: executePreHook_def)

theorem executePreHook_other_tools_pass_witness:
  "''delete_file'' \<noteq> ''write_to_file'' \<and> ''delete_file'' \<noteq> ''execute_command'' \<and>
   executePreHook ''delete_file'' () None = Inr () \<and>
   ''apply_diff'' \<noteq> ''write_to_file'' \<and> ''apply_diff'' \<noteq> ''execute_command'' \<and>
   executePreHook ''apply_diff'' () None = Inr ()"
  using executePreHook_other_tools_pass [of "''delete_file''" "()" None]
        executePreHook_other_tools_pass [of "''apply_diff''" "()" None]
  by simp

text \<open>
  Claim C1. A mutating request, that is a \<open>write_to_file\<close> or \<open>execute_command\<close>
  invocation, issued while no active intent is selected (the gatekeeper variable is
  \<^verbatim>\<open>null\<close>, or the empty string, which JavaScript also takes for unset): the gate throws
  the missing-intent error; the orchestrator ends \<open>BLOCKED\<close> with that error and returns the
  state as it was, whatever the wrapped action is, so the action was not invoked (the
  workspace is unchanged) and the ledger has as many entries as before. The same holds
  when the gate is \<open>validate\<close> applied to the active intent id, whatever the tool and the
  registry source.
\<close>

theorem missing_intent_blocks_mutation:
  assumes tool: "toolName = ''write_to_file'' \<or> toolName = ''execute_command''"
    and unresolved: "activeIntent st = None \<or> activeIntent st = Some []"
  shows "executePreHook toolName params (activeIntent st) = Inl GovernanceViolation \<and>
         governed_tool_call toolName params action uuid now meta st =
           (BLOCKED GovernanceViolation, st) \<and>
         length (agent_trace (snd (governed_tool_call toolName params action uuid now meta st))) =
           length (agent_trace st) \<and>
         validate sidecar (activeIntent st) = Inl MissingIntent \<and>
         executeWithHooks (\<lambda>s. map_sum id (\<lambda>intent. ()) (validate sidecar (activeIntent s)))
             action uuid now meta st =
           (BLOCKED MissingIntent, st)"
proof -
  from unresolved have "falsy (activeIntent st)"
    by (auto simp: falsy_def)
  with tool have gate: "executePreHook toolName params (activeIntent st) = Inl GovernanceViolation"
    by (auto simp: executePreHook_def)
  then have blocked: "governed_tool_call toolName params action uuid now meta st =
      (BLOCKED GovernanceViolation, st)"
    by (simp add: governed_tool_call_def executeWithHooks_def)
  from unresolved have strict: "validate sidecar (activeIntent st) = Inl MissingIntent"
    by (auto simp: validate_def)
  then have "executeWithHooks (\<lambda>s. map_sum id (\<lambda>intent. ()) (validate sidecar (activeIntent s)))
      action uuid now meta st = (BLOCKED MissingIntent, st)"
    by (simp add: executeWithHooks_def)
  with gate blocked strict show ?thesis
    by simp
qed

theorem missing_intent_blocks_mutation_witness:
  "governed_tool_call ''write_to_file'' () mutate ''uuid-0'' ''t0'' sample_write
      (sample_state\<lparr>activeIntent := None\<rparr>) =
     (BLOCKED GovernanceViolation, sample_state\<lparr>activeIntent := None\<rparr>) \<and>
   workspace (snd (governed_tool_call ''write_to_file'' () mutate ''uuid-0'' ''t0'' sample_write
      (sample_state\<lparr>activeIntent := None\<rparr>))) = 0 \<and>
   executePreHook ''execute_command'' () (Some []) = Inl GovernanceViolation \<and>
   executeWithHooks (\<lambda>s. map_sum id (\<lambda>intent. ()) (validate (Some sample_registry) (activeIntent s)))
       mutate ''uuid-0'' ''t0'' sample_write (sample_state\<lparr>activeIntent := None\<rparr>) =
     (BLOCKED MissingIntent, sample_state\<lparr>activeIntent := None\<rparr>)"
  using missing_intent_blocks_mutation [where toolName = "''write_to_file''"
      and st = "sample_state\<lparr>activeIntent := None\<rparr>" and params = "()"
      and action = mutate and uuid = "''uuid-0''" and now = "''t0''"
      and meta = sample_write and sidecar = "Some sample_registry"]
    missing_intent_blocks_mutation [where toolName = "''execute_command''"
      and st = "sample_state\<lparr>activeIntent := Some []\<rparr>"
      and params = "()" and action = mutate and uuid = "''uuid-0''"
      and now = "''t0''" and meta = sample_write and sidecar = "Some sample_registry"]
  by (simp add: sample_state_def)

section \<open>Properties of command classification\<close>

text \<open>
  Claim C7. Classification is a lookup in two explicit lists: \<open>read_file\<close> is Safe,
  \<open>delete_file\<close> is Destructive, and a command name in neither list (such as
  \<open>frobnicate\<close>) makes \<open>classifyCommand\<close> fail with \<open>UnknownCommand\<close>; nothing is
  inferred for an unlisted name. Conversely a classification is returned only for a
  listed name.
\<close>

theorem classifyCommand_closed_table:
  "classifyCommand ''read_file'' = Inr Safe \<and>
   classifyCommand ''delete_file'' = Inr Destructive \<and>
   classifyCommand ''frobnicate'' = Inl (UnknownCommand ''frobnicate'') \<and>
   (\<forall>command. command \<notin> set (safeCommands @ destructiveCommands) \<longrightarrow>
        classifyCommand command = Inl (UnknownCommand command)) \<and>
   (\<forall>command k. classifyCommand command = Inr k \<longrightarrow>
        command \<in> set (safeCommands @ destructiveCommands)) \<and>
   set (safeCommands @ destructiveCommands) =
     {''read_file'', ''list_files'', ''write_file'', ''delete_file'', ''execute_command''}"
  by (auto simp: classifyCommand_def safeCommands_def destructiveCommands_def)

theorem classifyCommand_closed_table_witness:
  "''frobnicate'' \<notin> set (safeCommands @ destructiveCommands) \<and>
   classifyCommand ''frobnicate'' = Inl (UnknownCommand ''frobnicate'') \<and>
   classifyCommand ''list_files'' = Inr Safe \<and>
   ''list_files'' \<in> set (safeCommands @ destructiveCommands)"
proof -
  have unlisted: "''frobnicate'' \<notin> set (safeCommands @ destructiveCommands)"
    by (simp add: safeCommands_def destructiveCommands_def)
  have listed: "classifyCommand ''list_files'' = Inr Safe"
    by (simp add: classifyCommand_def safeCommands_def)
  from classifyCommand_closed_table unlisted listed show ?thesis
    by blast
qed

section \<open>Properties of the ledger\<close>

lemma executeWithHooks_ledger:
  assumes "executeWithHooks gate action uuid now meta st = (out, st')"
    and "preserves_ledger action"
  shows "agent_trace st' =
       (if is_done out then agent_trace st @ [traceEntry uuid now meta] else agent_trace st)"
  using assms
  by (auto simp: executeWithHooks_def postWriteFileHook_def preserves_ledger_def
      split: sum.splits prod.splits if_splits)

lemma executeWithHooks_step:
  assumes "preserves_ledger action"
    and "executeWithHooks gate action uuid now meta st = (out, st')"
  shows "agent_trace st' =
       (if is_done out then agent_trace st @ [traceEntry uuid now meta] else agent_trace st) \<and>
     (is_done out \<longrightarrow> trace_appendable st')"
proof -
  have "is_done out \<longrightarrow> trace_appendable st'"
    using assms(2)
    by (auto simp: executeWithHooks_def postWriteFileHook_def
        split: sum.splits prod.splits if_splits)
  with executeWithHooks_ledger [OF assms(2) assms(1)] show ?thesis
    by simp
qed

lemma executeWithHooks_success:
  assumes "gate st = Inr u" and "action st = Inr (r, st1)"
  shows "executeWithHooks gate action uuid now meta st =
       (if trace_appendable st1
        then (DONE r, st1\<lparr>agent_trace := agent_trace st1 @ [traceEntry uuid now meta]\<rparr>)
        else (LEDGER_WRITE_FAILED (LedgerWriteFailure traceFilePath), st1))"
  using assms by (simp add: executeWithHooks_def postWriteFileHook_def)

lemma run_governed_length:
  "run_governed reqs st = (outs, st') \<Longrightarrow> length outs = length reqs"
proof (induction reqs arbitrary: st outs st')
  case Nil
  then show ?case by simp
next
  case (Cons req reqs)
  obtain gate action uuid now meta where req: "req = (gate, action, uuid, now, meta)"
    by (cases req) auto
  from Cons.prems show ?case
    by (auto simp: req split: prod.splits dest: Cons.IH)
qed

lemma run_governed_ledger:
  assumes "run_governed reqs st = (outs, st')"
    and "\<forall>req\<in>set reqs. preserves_ledger (action_of_request req)"
  shows "agent_trace st' = agent_trace st @ completed_entries reqs outs"
  using assms
proof (induction reqs arbitrary: st outs st')
  case Nil
  then show ?case by (simp add: completed_entries_def)
next
  case (Cons req reqs)
  obtain gate action uuid now meta where req: "req = (gate, action, uuid, now, meta)"
    by (cases req) auto
  obtain out st1 where first: "executeWithHooks gate action uuid now meta st = (out, st1)"
    by (cases "executeWithHooks gate action uuid now meta st") auto
  obtain outs1 st2 where rest: "run_governed reqs st1 = (outs1, st2)"
    by (cases "run_governed reqs st1") auto
  from Cons.prems(1) req first rest have outs: "outs = out # outs1" and st': "st' = st2"
    by auto
  from Cons.prems(2) req have frame: "preserves_ledger action"
    and frames: "\<forall>req\<in>set reqs. preserves_ledger (action_of_request req)"
    by auto
  have "agent_trace st2 = agent_trace st1 @ completed_entries reqs outs1"
    using Cons.IH [OF rest frames] .
  moreover have "agent_trace st1 =
      (if is_done out then agent_trace st @ [traceEntry uuid now meta] else agent_trace st)"
    using executeWithHooks_ledger [OF first frame] .
  ultimately show ?case
    by (simp add: outs st' req completed_entries_def)
qed

lemma run_governed_append:
  "run_governed (r1 @ r2) st =
     (case run_governed r1 st of (o1, s1) \<Rightarrow>
        (case run_governed r2 s1 of (o2, s2) \<Rightarrow> (o1 @ o2, s2)))"
proof (induction r1 arbitrary: st)
  case Nil
  then show ?case by (simp split: prod.splits)
next
  case (Cons req r1)
  obtain gate action uuid now meta where req: "req = (gate, action, uuid, now, meta)"
    by (cases req) auto
  show ?case
    by (simp add: req Cons.IH split: prod.splits)
qed

lemma completed_entries_length:
  "length outs = length reqs \<Longrightarrow>
     length (completed_entries reqs outs) = length (filter is_done outs)"
proof (induction reqs arbitrary: outs)
  case Nil
  then show ?case by (simp add: completed_entries_def)
next
  case (Cons req reqs)
  then obtain out outs1 where outs: "outs = out # outs1"
    by (cases outs) auto
  with Cons.prems have "length outs1 = length reqs" by simp
  from Cons.IH [OF this] show ?case
    by (simp add: outs completed_entries_def)
qed

lemma run_governed_sample:
  "run_governed sample_requests sample_state =
     (sample_outcomes,
      \<lparr>activeIntent = Some ''INT-001'',
         agent_trace =
           [traceEntry ''uuid-2'' ''t2'' sample_write, traceEntry ''uuid-3'' ''t3'' sample_write],
         trace_appendable = False,
         workspace = 3\<rparr>)"
  by (simp add: sample_requests_def sample_state_def sample_outcomes_def executeWithHooks_def
      executePreHook_def falsy_def postWriteFileHook_def mutate_def fail_action_def
      mutate_and_remove_directory_def)

lemma sample_requests_frame:
  "\<forall>req\<in>set sample_requests. preserves_ledger (action_of_request req)"
  by (auto simp: sample_requests_def preserves_ledger_def mutate_def fail_action_def
      mutate_and_remove_directory_def)

text \<open>
  Claim C2, as amended. Take any sequence of governed actions whose wrapped actions do not
  themselves write the ledger file. Every action that ends \<open>DONE\<close> appends exactly one trace
  entry; an action that is blocked, that fails, or whose append to the ledger fails
  appends none. So the ledger after the sequence is the ledger before it followed by the
  entries of the actions that ended \<open>DONE\<close>, in the order of completion; its length has
  grown by their number; and the ledger at every earlier point of the sequence is a prefix
  of the final one: the number of entries never decreases and no earlier entry is altered
  or removed. An action that passes its gate and succeeds ends \<open>DONE\<close> exactly when the
  ledger file can be appended to afterwards; otherwise its mutation stands, unrecorded,
  and the outcome is \<open>LEDGER_WRITE_FAILED\<close>.
\<close>

theorem ledger_append_only:
  assumes run: "run_governed reqs st = (outs, st')"
    and frame: "\<forall>req\<in>set reqs. preserves_ledger (action_of_request req)"
  shows "agent_trace st' = agent_trace st @ completed_entries reqs outs \<and>
         length outs = length reqs \<and>
         length (agent_trace st') = length (agent_trace st) + length (filter is_done outs) \<and>
         (\<forall>r1 r2. reqs = r1 @ r2 \<longrightarrow>
            take (length (agent_trace (snd (run_governed r1 st)))) (agent_trace st') =
              agent_trace (snd (run_governed r1 st)) \<and>
            length (agent_trace st) \<le> length (agent_trace (snd (run_governed r1 st))) \<and>
            length (agent_trace (snd (run_governed r1 st))) \<le> length (agent_trace st')) \<and>
         (\<forall>gate action uuid now meta s out s1.
            preserves_ledger action \<longrightarrow>
            executeWithHooks gate action uuid now meta s = (out, s1) \<longrightarrow>
              agent_trace s1 =
                (if is_done out then agent_trace s @ [traceEntry uuid now meta]
                 else agent_trace s) \<and>
              (is_done out \<longrightarrow> trace_appendable s1)) \<and>
         (\<forall>gate action uuid now meta s u r s1.
            gate s = Inr u \<longrightarrow> action s = Inr (r, s1) \<longrightarrow>
              executeWithHooks gate action uuid now meta s =
                (if trace_appendable s1
                 then (DONE r, s1\<lparr>agent_trace := agent_trace s1 @ [traceEntry uuid now meta]\<rparr>)
                 else (LEDGER_WRITE_FAILED (LedgerWriteFailure traceFilePath), s1)))"
proof -
  have ledger: "agent_trace st' = agent_trace st @ completed_entries reqs outs"
    using run_governed_ledger [OF run frame] .
  have len: "length outs = length reqs"
    using run_governed_length [OF run] .
  have count: "length (agent_trace st') = length (agent_trace st) + length (filter is_done outs)"
    using ledger completed_entries_length [OF len] by simp
  have prefixes: "take (length (agent_trace (snd (run_governed r1 st)))) (agent_trace st') =
        agent_trace (snd (run_governed r1 st)) \<and>
      length (agent_trace st) \<le> length (agent_trace (snd (run_governed r1 st))) \<and>
      length (agent_trace (snd (run_governed r1 st))) \<le> length (agent_trace st')"
    if split: "reqs = r1 @ r2" for r1 r2
  proof -
    obtain o1 s1 where first: "run_governed r1 st = (o1, s1)"
      by (cases "run_governed r1 st") auto
    obtain o2 s2 where rest: "run_governed r2 s1 = (o2, s2)"
      by (cases "run_governed r2 s1") auto
    from frame split have f1: "\<forall>req\<in>set r1. preserves_ledger (action_of_request req)"
      and f2: "\<forall>req\<in>set r2. preserves_ledger (action_of_request req)"
      by auto
    from run split first rest have "st' = s2"
      by (simp add: run_governed_append)
    moreover have "agent_trace s1 = agent_trace st @ completed_entries r1 o1"
      using run_governed_ledger [OF first f1] .
    moreover have "agent_trace s2 = agent_trace s1 @ completed_entries r2 o2"
      using run_governed_ledger [OF rest f2] .
    ultimately show ?thesis
      by (simp add: first)
  qed
  show ?thesis
    apply (intro conjI)
        apply (rule ledger)
       apply (rule len)
      apply (rule count)
     apply (use prefixes in blast)
     apply (intro allI impI)
     apply (rule executeWithHooks_step; assumption)
    apply (intro allI impI)
    apply (rule executeWithHooks_success; assumption)
    done
qed

theorem ledger_append_only_witness:
  "run_governed sample_requests sample_state =
     (sample_outcomes,
      \<lparr>activeIntent = Some ''INT-001'',
         agent_trace =
           [traceEntry ''uuid-2'' ''t2'' sample_write, traceEntry ''uuid-3'' ''t3'' sample_write],
         trace_appendable = False,
         workspace = 3\<rparr>) \<and>
   completed_entries sample_requests sample_outcomes =
     [traceEntry ''uuid-2'' ''t2'' sample_write, traceEntry ''uuid-3'' ''t3'' sample_write] \<and>
   length (filter is_done sample_outcomes) = 2 \<and>
   length (agent_trace (snd (run_governed sample_requests sample_state))) = 2"
proof -
  have "agent_trace \<lparr>activeIntent = Some ''INT-001'',
         agent_trace =
           [traceEntry ''uuid-2'' ''t2'' sample_write, traceEntry ''uuid-3'' ''t3'' sample_write],
         trace_appendable = False,
         workspace = (3::nat)\<rparr> =
      agent_trace sample_state @ completed_entries sample_requests sample_outcomes"
    using ledger_append_only [OF run_governed_sample sample_requests_frame] by (rule conjunct1)
  then have "completed_entries sample_requests sample_outcomes =
      [traceEntry ''uuid-2'' ''t2'' sample_write, traceEntry ''uuid-3'' ''t3'' sample_write]"
    by (simp add: sample_state_def)
  with run_governed_sample show ?thesis
    by (simp add: sample_outcomes_def)
qed

text \<open>
  Claim C2, as stated, fails. When the ledger file cannot be appended to,
  \<open>postWriteFileHook\<close> throws: a \<open>write_to_file\<close> action that has mutated the workspace
  (the count goes from 0 to 1) leaves the ledger empty. And a wrapped action that empties
  the ledger file removes the entry appended before it.
\<close>

theorem unlogged_mutation_counterexample:
  "postWriteFileHook False ''uuid-0'' ''t0'' sample_write [] =
     Inl (LedgerWriteFailure traceFilePath) \<and>
   governed_tool_call ''write_to_file'' () mutate ''uuid-0'' ''t0'' sample_write
       (sample_state\<lparr>trace_appendable := False\<rparr>) =
     (LEDGER_WRITE_FAILED (LedgerWriteFailure traceFilePath),
      \<lparr>activeIntent = Some ''INT-001'', agent_trace = [], trace_appendable = False,
         workspace = 1\<rparr>) \<and>
   workspace (sample_state\<lparr>trace_appendable := False\<rparr>) = 0 \<and>
   governed_tool_call ''execute_command'' () empty_trace_file ''uuid-1'' ''t1'' sample_write
       (sample_state\<lparr>agent_trace := [traceEntry ''uuid-0'' ''t0'' sample_write]\<rparr>) =
     (DONE (),
      \<lparr>activeIntent = Some ''INT-001'',
         agent_trace = [traceEntry ''uuid-1'' ''t1'' sample_write], trace_appendable = True,
         workspace = 0\<rparr>) \<and>
   traceEntry ''uuid-0'' ''t0'' sample_write \<noteq> traceEntry ''uuid-1'' ''t1'' sample_write"
  by (simp add: governed_tool_call_def executeWithHooks_def executePreHook_def falsy_def
      postWriteFileHook_def mutate_def empty_trace_file_def sample_state_def traceEntry_def)

section \<open>Properties of the content hash and the staleness check\<close>

text \<open>The encoding of a string for hashing: one byte for a character below \<^verbatim>\<open>0x80\<close>, two
  bytes for the others.\<close>

lemma utf8_examples:
  "utf8 ''a'' = [0x61] \<and> utf8 [CHR 0x80] = [0xC2, 0x80] \<and> utf8 [CHR 0xE9] = [0xC3, 0xA9] \<and>
   utf8 [CHR 0xFF] = [0xC3, 0xBF]"
  by (simp add: utf8_def utf8_char_def)

text \<open>\<open>rotr\<close> is the rotation of the word library.\<close>

lemma rotr_is_word_rotr:
  assumes "0 < n" and "n < 32"
  shows "rotr n x = word_rotr n x"
proof (rule bit_word_eqI)
  fix k
  assume k: "k < LENGTH(32)"
  show "bit (rotr n x) k \<longleftrightarrow> bit (word_rotr n x) k"
  proof (cases "k + n < 32")
    case True
    then have "(k + n) mod 32 = k + n"
      by simp
    with True k assms show ?thesis
      by (auto simp: rotr_def bit_simps bit_word_rotr_iff add.commute dest: bit_imp_le_length)
  next
    case False
    with k assms have "(k + n) mod 32 = k + n - 32"
      by (simp add: le_mod_geq)
    with False k assms show ?thesis
      by (auto simp: rotr_def bit_simps bit_word_rotr_iff add.commute dest: bit_imp_le_length)
  qed
qed

text \<open>The one-block example of the standard: the digest of \<open>abc\<close>.\<close>

lemma sha256_abc:
  "generateContentHash ''abc'' =
     ''ba7816bf8f01cfea414140de5dae2223b00361a396177a9cb410ff61f20015ad''"
proof -
  have padded: "blocks16 (be_words (sha_pad (utf8 ''abc''))) =
      [[0x61626380, 0x00000000, 0x00000000, 0x00000000,
       0x00000000, 0x00000000, 0x00000000, 0x00000000,
       0x00000000, 0x00000000, 0x00000000, 0x00000000,
       0x00000000, 0x00000000, 0x00000000, 0x00000018]]"
    by code_simp
  have compressed: "compress
       [0x61626380, 0x00000000, 0x00000000, 0x00000000,
        0x00000000, 0x00000000, 0x00000000, 0x00000000,
        0x00000000, 0x00000000, 0x00000000, 0x00000000,
        0x00000000, 0x00000000, 0x00000000, 0x00000018]
       sha_H0 =
      [0xba7816bf, 0x8f01cfea, 0x414140de, 0x5dae2223,
       0xb00361a3, 0x96177a9c, 0xb410ff61, 0xf20015ad]"
    by (simp add: compress_def schedule_def extend1_def sha_K_def sha_H0_def
        ssig0_def ssig1_def bsig0_def bsig1_def Ch_def Maj_def rotr_def Let_def)
  have digits: "concat (map hex32
       [0xba7816bf, 0x8f01cfea, 0x414140de, 0x5dae2223,
        0xb00361a3, 0x96177a9c, 0xb410ff61, 0xf20015ad]) =
      ''ba7816bf8f01cfea414140de5dae2223b00361a396177a9cb410ff61f20015ad''"
    by code_simp
  show ?thesis
    by (simp only: generateContentHash_def sha256_def padded fold.simps o_apply id_apply
        compressed digits)
qed

text \<open>The hashes of the two sample contents, computed from the definition of SHA-256.\<close>

lemma generateContentHash_lf:
  "generateContentHash content_lf =
     ''87428fc522803d31065e7bce3cf03fe475096631e5e07bbd7a0fde60c4cf25c7''"
proof -
  have padded: "blocks16 (be_words (sha_pad (utf8 content_lf))) =
      [[0x610a8000, 0x00000000, 0x00000000, 0x00000000,
       0x00000000, 0x00000000, 0x00000000, 0x00000000,
       0x00000000, 0x00000000, 0x00000000, 0x00000000,
       0x00000000, 0x00000000, 0x00000000, 0x00000010]]"
    unfolding content_lf_def by code_simp
  have compressed: "compress
       [0x610a8000, 0x00000000, 0x00000000, 0x00000000,
        0x00000000, 0x00000000, 0x00000000, 0x00000000,
        0x00000000, 0x00000000, 0x00000000, 0x00000000,
        0x00000000, 0x00000000, 0x00000000, 0x00000010]
       sha_H0 =
      [0x87428fc5, 0x22803d31, 0x065e7bce, 0x3cf03fe4,
       0x75096631, 0xe5e07bbd, 0x7a0fde60, 0xc4cf25c7]"
    by (simp add: compress_def schedule_def extend1_def sha_K_def sha_H0_def
        ssig0_def ssig1_def bsig0_def bsig1_def Ch_def Maj_def rotr_def Let_def)
  have digits: "concat (map hex32
       [0x87428fc5, 0x22803d31, 0x065e7bce, 0x3cf03fe4,
        0x75096631, 0xe5e07bbd, 0x7a0fde60, 0xc4cf25c7]) =
      ''87428fc522803d31065e7bce3cf03fe475096631e5e07bbd7a0fde60c4cf25c7''"
    by code_simp
  show ?thesis
    by (simp only: generateContentHash_def sha256_def padded fold.simps o_apply id_apply
        compressed digits)
qed

lemma generateContentHash_crlf:
  "generateContentHash content_crlf =
     ''8e4621379786ef42a4fec155cd525c291dd7db3c1fde3478522f4f61c03fd1bd''"
proof -
  have padded: "blocks16 (be_words (sha_pad (utf8 content_crlf))) =
      [[0x610d0a80, 0x00000000, 0x00000000, 0x00000000,
       0x00000000, 0x00000000, 0x00000000, 0x00000000,
       0x00000000, 0x00000000, 0x00000000, 0x00000000,
       0x00000000, 0x00000000, 0x00000000, 0x00000018]]"
    unfolding content_crlf_def by code_simp
  have compressed: "compress
       [0x610d0a80, 0x00000000, 0x00000000, 0x00000000,
        0x00000000, 0x00000000, 0x00000000, 0x00000000,
        0x00000000, 0x00000000, 0x00000000, 0x00000000,
        0x00000000, 0x00000000, 0x00000000, 0x00000018]
       sha_H0 =
      [0x8e462137, 0x9786ef42, 0xa4fec155, 0xcd525c29,
       0x1dd7db3c, 0x1fde3478, 0x522f4f61, 0xc03fd1bd]"
    by (simp add: compress_def schedule_def extend1_def sha_K_def sha_H0_def
        ssig0_def ssig1_def bsig0_def bsig1_def Ch_def Maj_def rotr_def Let_def)
  have digits: "concat (map hex32
       [0x8e462137, 0x9786ef42, 0xa4fec155, 0xcd525c29,
        0x1dd7db3c, 0x1fde3478, 0x522f4f61, 0xc03fd1bd]) =
      ''8e4621379786ef42a4fec155cd525c291dd7db3c1fde3478522f4f61c03fd1bd''"
    by code_simp
  show ?thesis
    by (simp only: generateContentHash_def sha256_def padded fold.simps o_apply id_apply
        compressed digits)
qed

text \<open>
  Claim C5. \<open>generateContentHash\<close> applies SHA-256 to the content as given, with no
  normalisation step. It is a function, so equal inputs have equal hashes; but the two
  sample contents, which differ in the line ending only (LF against CR LF), have
  different hashes.
\<close>

theorem generateContentHash_not_reformat_stable:
  "generateContentHash content_lf =
     ''87428fc522803d31065e7bce3cf03fe475096631e5e07bbd7a0fde60c4cf25c7'' \<and>
   generateContentHash content_crlf =
     ''8e4621379786ef42a4fec155cd525c291dd7db3c1fde3478522f4f61c03fd1bd'' \<and>
   generateContentHash content_lf \<noteq> generateContentHash content_crlf"
  by (simp add: generateContentHash_lf generateContentHash_crlf)

text \<open>
  Claim C6. For a path whose file can be read, the staleness check hashes the current
  content and fails with \<open>StaleFile\<close> exactly when that hash differs from the expected
  one, and succeeds exactly when they are equal. Hence a reader whose snapshot is the
  hash of the content it read passes the check while the file is unchanged; after a
  write that changes the hash, the check against the old snapshot fails with
  \<open>StaleFile\<close>, and the check against a snapshot taken again from the new content succeeds.
\<close>

theorem staleness_check:
  assumes present: "fs filePath = Some currentContent"
  shows "(enforceConcurrencyControl fs filePath expectedHash = Inl (StaleFile filePath) \<longleftrightarrow>
            generateContentHash currentContent \<noteq> expectedHash) \<and>
         (enforceConcurrencyControl fs filePath expectedHash = Inr () \<longleftrightarrow>
            generateContentHash currentContent = expectedHash) \<and>
         enforceConcurrencyControl fs filePath (generateContentHash currentContent) = Inr () \<and>
         (\<forall>written.
            generateContentHash written \<noteq> generateContentHash currentContent \<longrightarrow>
              enforceConcurrencyControl (fs(filePath \<mapsto> written)) filePath
                  (generateContentHash currentContent) = Inl (StaleFile filePath) \<and>
              enforceConcurrencyControl (fs(filePath \<mapsto> written)) filePath
                  (generateContentHash written) = Inr ())"
  using present by (simp add: enforceConcurrencyControl_def)

theorem staleness_check_witness:
  "[''src/a.ts'' \<mapsto> content_lf] ''src/a.ts'' = Some content_lf \<and>
   enforceConcurrencyControl [''src/a.ts'' \<mapsto> content_lf] ''src/a.ts''
     (generateContentHash content_lf) = Inr () \<and>
   generateContentHash content_crlf \<noteq> generateContentHash content_lf \<and>
   enforceConcurrencyControl ([''src/a.ts'' \<mapsto> content_lf](''src/a.ts'' \<mapsto> content_crlf))
     ''src/a.ts'' (generateContentHash content_lf) = Inl (StaleFile ''src/a.ts'') \<and>
   enforceConcurrencyControl ([''src/a.ts'' \<mapsto> content_lf](''src/a.ts'' \<mapsto> content_crlf))
     ''src/a.ts'' (generateContentHash content_crlf) = Inr ()"
proof -
  have present: "[''src/a.ts'' \<mapsto> content_lf] ''src/a.ts'' = Some content_lf"
    by simp
  have changed: "generateContentHash content_crlf \<noteq> generateContentHash content_lf"
    by (simp add: generateContentHash_lf generateContentHash_crlf)
  from staleness_check [of "[''src/a.ts'' \<mapsto> content_lf]" "''src/a.ts''" content_lf, OF present]
    present changed
  show ?thesis
    by blast
qed

text \<open>A path that cannot be read fails with the read error, before any hash is compared.\<close>

lemma staleness_check_unreadable:
  "fs filePath = None \<Longrightarrow>
     enforceConcurrencyControl fs filePath expectedHash = Inl (ReadFailure filePath)"
  by (simp add: enforceConcurrencyControl_def)

section \<open>Properties of command authorization\<close>

text \<open>
  Claim C9, as amended. A command classified Safe is granted without any dialog being
  opened. For a command classified Destructive exactly one warning dialog is opened and
  the result is the external decision, returned as a boolean: \<^verbatim>\<open>true\<close> when the answer is
  \<open>Approve\<close>, \<^verbatim>\<open>false\<close> when it is \<open>Reject\<close>, and \<^verbatim>\<open>false\<close> exactly when the answer is not an
  approval, a dismissed dialog counting as a rejection. A denial is a normal return:
  \<open>authorizeCommand\<close> throws only when \<open>classifyCommand\<close> does, that is for a command
  name in neither list.
\<close>

theorem authorizeCommand_by_classification:
  "(classifyCommand command = Inr Safe \<longrightarrow>
      authorizeCommand showWarningMessage command = (Inr True, [])) \<and>
   (classifyCommand command = Inr Destructive \<longrightarrow>
      authorizeCommand showWarningMessage command =
        (Inr (showWarningMessage (warningMessage command) = Some ''Approve''),
         [warningMessage command]) \<and>
      (showWarningMessage (warningMessage command) = Some ''Reject'' \<longrightarrow>
         fst (authorizeCommand showWarningMessage command) = Inr False) \<and>
      (fst (authorizeCommand showWarningMessage command) = Inr False \<longleftrightarrow>
         showWarningMessage (warningMessage command) \<noteq> Some ''Approve'')) \<and>
   (isl (fst (authorizeCommand showWarningMessage command)) \<longleftrightarrow>
      isl (classifyCommand command))"
  by (simp add: authorizeCommand_def split: sum.splits classification.splits)

theorem authorizeCommand_by_classification_witness:
  "classifyCommand ''read_file'' = Inr Safe \<and>
   authorizeCommand (\<lambda>m. Some ''Reject'') ''read_file'' = (Inr True, []) \<and>
   classifyCommand ''delete_file'' = Inr Destructive \<and>
   authorizeCommand (\<lambda>m. Some ''Reject'') ''delete_file'' =
     (Inr False, [warningMessage ''delete_file'']) \<and>
   authorizeCommand (\<lambda>m. Some ''Approve'') ''delete_file'' =
     (Inr True, [warningMessage ''delete_file'']) \<and>
   authorizeCommand (\<lambda>m. None) ''delete_file'' =
     (Inr False, [warningMessage ''delete_file'']) \<and>
   \<not> isl (fst (authorizeCommand (\<lambda>m. Some ''Reject'') ''delete_file''))"
proof -
  have safe: "classifyCommand ''read_file'' = Inr Safe"
    by (simp add: classifyCommand_def safeCommands_def)
  have destr: "classifyCommand ''delete_file'' = Inr Destructive"
    by (simp add: classifyCommand_def safeCommands_def destructiveCommands_def)
  show ?thesis
    using safe destr
      authorizeCommand_by_classification [of "''read_file''" "\<lambda>m. Some ''Reject''"]
      authorizeCommand_by_classification [of "''delete_file''" "\<lambda>m. Some ''Reject''"]
      authorizeCommand_by_classification [of "''delete_file''" "\<lambda>m. Some ''Approve''"]
      authorizeCommand_by_classification [of "''delete_file''" "\<lambda>m. None"]
    by simp
qed

text \<open>
  Claim C9, as stated, fails: for the Destructive command \<open>delete_file\<close> and the answer
  \<open>Reject\<close>, \<open>authorizeCommand\<close> does not fail; it returns \<^verbatim>\<open>false\<close>.
\<close>

theorem rejection_is_not_an_error_counterexample:
  "classifyCommand ''delete_file'' = Inr Destructive \<and>
   authorizeCommand (\<lambda>m. Some ''Reject'') ''delete_file'' =
     (Inr False, [warningMessage ''delete_file'']) \<and>
   \<not> isl (fst (authorizeCommand (\<lambda>m. Some ''Reject'') ''delete_file''))"
  by (simp add: authorizeCommand_def classifyCommand_def safeCommands_def
      destructiveCommands_def)

section \<open>Properties of scope enforcement\<close>

text \<open>The two examples of the specification: with the scope \<^verbatim>\<open>src/core/**\<close>, a file directly
  under \<^verbatim>\<open>src/core/\<close> is allowed and a file under \<^verbatim>\<open>docs/\<close> is a scope violation.\<close>

lemma enforceScope_spec_examples:
  "enforceScope ''src/core/foo.txt'' core_intent = Some (Inr ()) \<and>
   enforceScope ''docs/readme.txt'' core_intent =
     Some (Inl (ScopeViolation ''INT-001'' ''docs/readme.txt''))"
  by code_simp

text \<open>
  Claim C3. The expression built from \<^verbatim>\<open>src/core/**\<close> is \<^verbatim>\<open>^src/core/.[^/]*$\<close>: the second
  replacement rewrites the \<^verbatim>\<open>*\<close> that the first one has just produced. The path
  \<^verbatim>\<open>src/core/sub/foo.txt\<close> matches the pattern in the semantics of the specification
  (\<^verbatim>\<open>**\<close> covers any number of path segments), and \<open>enforceScope\<close> rejects it with a scope
  violation.
\<close>

theorem enforceScope_rejects_nested_path:
  "scope_regex_source ''src/core/**'' = ''^src/core/.[^/]*$'' \<and>
   spec_matches ''src/core/sub/foo.txt'' [''src/core/**''] \<and>
   enforceScope ''src/core/sub/foo.txt'' core_intent =
     Some (Inl (ScopeViolation ''INT-001'' ''src/core/sub/foo.txt''))"
  by code_simp

text \<open>A \<^verbatim>\<open>.\<close> of a pattern is not matched literally either: it stands for any character.\<close>

lemma enforceScope_dot_not_literal:
  "\<not> spec_matches ''abts'' [''a.ts''] \<and>
   enforceScope ''abts'' (core_intent\<lparr>owned_scope := Some [''a.ts'']\<rparr>) = Some (Inr ())"
  by code_simp





section \<open>Properties of intent resolution\<close>




lemma sample_registry_found:
  "extractIntentBlock sample_registry ''INT-001'' =
     Some \<lparr>ident = ''INT-001'', name = Some ''Core'', owned_scope = Some [''**''],
           constraints = Some [], acceptance_criteria = Some []\<rparr>"
  by code_simp

lemma sample_registry_missing:
  "extractIntentBlock sample_registry ''INT-404'' = None"
  by code_simp






lemma tool_stub_xml:
  "intent_xml (tool_stub i) =
     ''<intent_context> <id>'' @ i @
     ''</id> <scope>**</scope> <constraints>(none)</constraints> </intent_context>''"
  by (simp add: intent_xml_def tool_stub_def joined_or_none_def)






section \<open>Properties of the gatekeeper state across sessions\<close>

lemma run_calls_snoc:
  "run_calls (calls @ [c]) g = step c (run_calls calls g)"
  by (simp add: run_calls_def)

text \<open>
  Claim C8, as amended. The active intent is one variable of the process, shared by all
  sessions. After any calls, a selection issued by a session \<open>a\<close>, through
  \<^verbatim>\<open>select_active_intent\<close>, or through \<^verbatim>\<open>selectActiveIntent\<close> when the registry source
  has the id, sets the intent id that the next gate evaluation of any session \<open>b\<close>
  observes. A \<^verbatim>\<open>selectActiveIntent\<close> call that fails (the registry source cannot be read
  or has no entry for the id) and a gate evaluation leave the variable as it was.
\<close>

theorem active_intent_is_process_wide:
  "getActiveIntentId (run_calls (calls @ [Select a i]) g) = Some i \<and>
   gate_result b t (run_calls (calls @ [Select a i]) g) = executePreHook t () (Some i) \<and>
   (extractIntentBlock yaml i \<noteq> None \<longrightarrow>
      getActiveIntentId (run_calls (calls @ [SelectFromRegistry a i (Inr yaml)]) g) = Some i \<and>
      gate_result b t (run_calls (calls @ [SelectFromRegistry a i (Inr yaml)]) g) =
        executePreHook t () (Some i)) \<and>
   (extractIntentBlock yaml i = None \<longrightarrow>
      run_calls (calls @ [SelectFromRegistry a i (Inr yaml)]) g = run_calls calls g) \<and>
   run_calls (calls @ [SelectFromRegistry a i (Inl m)]) g = run_calls calls g \<and>
   run_calls (calls @ [Gate a t]) g = run_calls calls g"
  by (auto simp: run_calls_snoc select_active_intent_def selectActiveIntent_def
      getActiveIntentId_def gate_result_def)

theorem active_intent_is_process_wide_witness:
  "getActiveIntentId (run_calls ([Gate (2::nat) ''read_file''] @ [Select 1 ''INT-001'']) None) =
     Some ''INT-001'' \<and>
   gate_result (2::nat) ''write_to_file''
     (run_calls ([Gate (2::nat) ''read_file''] @ [Select 1 ''INT-001'']) None) = Inr () \<and>
   extractIntentBlock sample_registry ''INT-001'' \<noteq> None \<and>
   gate_result (2::nat) ''write_to_file''
     (run_calls ([] @ [SelectFromRegistry (1::nat) ''INT-001'' (Inr sample_registry)]) None) =
     Inr () \<and>
   extractIntentBlock sample_registry ''INT-404'' = None \<and>
   run_calls ([Select (2::nat) ''INT-001''] @
       [SelectFromRegistry 1 ''INT-404'' (Inr sample_registry)]) None =
     run_calls [Select (2::nat) ''INT-001''] None"
proof -
  have gate: "executePreHook ''write_to_file'' () (Some ''INT-001'') = Inr ()"
    by (simp add: executePreHook_def falsy_def)
  from active_intent_is_process_wide [where calls = "[Gate (2::nat) ''read_file'']"
      and a = "1::nat" and i = "''INT-001''" and g = None and b = "2::nat"
      and t = "''write_to_file''" and yaml = sample_registry and m = "[]"]
    active_intent_is_process_wide [where calls = "[]"
      and a = "1::nat" and i = "''INT-001''" and g = None and b = "2::nat"
      and t = "''write_to_file''" and yaml = sample_registry and m = "[]"]
    active_intent_is_process_wide [where calls = "[Select (2::nat) ''INT-001'']"
      and a = "1::nat" and i = "''INT-404''" and g = None and b = "2::nat"
      and t = "''write_to_file''" and yaml = sample_registry and m = "[]"]
    gate sample_registry_found sample_registry_missing
  show ?thesis by simp
qed

text \<open>
  Claim C8, as stated, fails: session 2 has selected nothing; with session 1's calls
  left out the active intent is unset and the gate of session 2 blocks \<open>write_to_file\<close>,
  but once session 1 has selected an intent, session 2 observes that intent id and its
  gate passes.
\<close>

theorem session_isolation_counterexample:
  "getActiveIntentId (run_calls (without_session 1 [Select (1::nat) ''INT-001'']) None) = None \<and>
   getActiveIntentId (run_calls [Select (1::nat) ''INT-001''] None) = Some ''INT-001'' \<and>
   gate_result (2::nat) ''write_to_file''
     (run_calls (without_session 1 [Select (1::nat) ''INT-001'']) None) = Inl GovernanceViolation \<and>
   gate_result (2::nat) ''write_to_file''
     (run_calls [Select (1::nat) ''INT-001''] None) = Inr ()"
  by (simp add: gate_result_def run_calls_def without_session_def select_active_intent_def
      executePreHook_def falsy_def getActiveIntentId_def)

end
